theory Spec2Isabelle
  imports Main "HOL-Library.Word" "HOL-Library.Stream"
begin

unbundle bit_operations_syntax

section \<open>Library functions used by the PKCE check\<close>

text \<open>
  \<^verbatim>\<open>oauth.py\<close> computes the S256 code challenge as
  \<^verbatim>\<open>base64.urlsafe_b64encode(hashlib.sha256(code_verifier.encode()).digest()).rstrip(b"=").decode()\<close>.
  These are functions of the Python standard library, not of the repository; they are
  written out here (SHA-256 after FIPS 180-4, base64url after RFC 4648) so that the
  check can be evaluated on concrete verifiers.

  A Python \<^verbatim>\<open>str\<close> is a sequence of code points, lone surrogates (U+D800 to U+DFFF)
  included: \<^verbatim>\<open>json.loads\<close> returns one for \<^verbatim>\<open>"\\ud800"\<close>. It is modelled by the
  \<^typ>\<open>string\<close> of its bytes in UTF-8, a surrogate written in the same three-byte form as
  its neighbours (\<open>ED A0 80\<close> to \<open>ED BF BF\<close>, what Python's \<^verbatim>\<open>surrogatepass\<close> handler
  writes). Different strs have different bytes, so equality, emptiness and ASCII prefixes
  are the same on both sides. \<^verbatim>\<open>.encode()\<close> is the byte list itself, except that it
  raises \<^verbatim>\<open>UnicodeEncodeError\<close> when the str holds a surrogate; in these bytes that is
  an \<open>ED\<close> followed by a byte from \<open>A0\<close> to \<open>BF\<close>.
\<close>

type_synonym byte = "8 word"
type_synonym u32 = "32 word"

datatype error = UnicodeEncodeError

fun has_surrogate :: "string \<Rightarrow> bool" where
  "has_surrogate (a # b # rest) =
     ((of_char a = (237 :: nat) \<and> (160 :: nat) \<le> of_char b \<and> of_char b \<le> (191 :: nat))
      \<or> has_surrogate (b # rest))"
| "has_surrogate [a] = False"
| "has_surrogate [] = False"

definition encode :: "string \<Rightarrow> error + byte list" where
  "encode s =
     (if has_surrogate s then Inl UnicodeEncodeError
      else Inr (map (\<lambda>c. of_nat (of_char c)) s))"

definition rotr :: "nat \<Rightarrow> u32 \<Rightarrow> u32" where
  "rotr n x = drop_bit n x OR push_bit (32 - n) x"

text \<open>
  The round constants are the first 32 bits of the fractional parts of the cube roots of
  the first 64 primes, the initial hash value those of the square roots of the first 8.
\<close>

definition K256 :: "u32 list" where
  "K256 =
    [1116352408, 1899447441, 3049323471, 3921009573,
     961987163, 1508970993, 2453635748, 2870763221,
     3624381080, 310598401, 607225278, 1426881987,
     1925078388, 2162078206, 2614888103, 3248222580,
     3835390401, 4022224774, 264347078, 604807628,
     770255983, 1249150122, 1555081692, 1996064986,
     2554220882, 2821834349, 2952996808, 3210313671,
     3336571891, 3584528711, 113926993, 338241895,
     666307205, 773529912, 1294757372, 1396182291,
     1695183700, 1986661051, 2177026350, 2456956037,
     2730485921, 2820302411, 3259730800, 3345764771,
     3516065817, 3600352804, 4094571909, 275423344,
     430227734, 506948616, 659060556, 883997877,
     958139571, 1322822218, 1537002063, 1747873779,
     1955562222, 2024104815, 2227730452, 2361852424,
     2428436474, 2756734187, 3204031479, 3329325298]"

definition H256 :: "u32 list" where
  "H256 = [1779033703, 3144134277, 1013904242, 2773480762,
           1359893119, 2600822924, 528734635, 1541459225]"

definition pad :: "byte list \<Rightarrow> byte list" where
  "pad m =
     (let l = length m;
          z = (119 - l mod 64) mod 64;
          bits = (of_nat (8 * l) :: 64 word)
      in m @ [0x80] @ replicate z 0 @
         map (\<lambda>i. ucast (drop_bit (8 * (7 - i)) bits)) [0..<8])"

fun be_words :: "byte list \<Rightarrow> u32 list" where
  "be_words (a # b # c # d # rest) =
     (push_bit 24 (ucast a) OR push_bit 16 (ucast b) OR push_bit 8 (ucast c) OR ucast d) # be_words rest"
| "be_words _ = []"

fun schedule :: "nat \<Rightarrow> u32 list \<Rightarrow> u32 list" where
  "schedule 0 w = w"
| "schedule (Suc n) w =
     (let t = length w;
          x = w ! (t - 15); y = w ! (t - 2);
          s0 = rotr 7 x XOR rotr 18 x XOR drop_bit 3 x;
          s1 = rotr 17 y XOR rotr 19 y XOR drop_bit 10 y
      in schedule n (w @ [w ! (t - 16) + s0 + w ! (t - 7) + s1]))"

fun round256 :: "u32 list \<Rightarrow> u32 \<times> u32 \<Rightarrow> u32 list" where
  "round256 [a, b, c, d, e, f, g, h] (k, w) =
     (let t1 = h + (rotr 6 e XOR rotr 11 e XOR rotr 25 e) + ((e AND f) XOR (NOT e AND g)) + k + w;
          t2 = (rotr 2 a XOR rotr 13 a XOR rotr 22 a) + ((a AND b) XOR (a AND c) XOR (b AND c))
      in [t1 + t2, a, b, c, d + t1, e, f, g])"
| "round256 v _ = v"

definition compress :: "u32 list \<Rightarrow> u32 list \<Rightarrow> u32 list" where
  "compress hs block =
     map2 (+) hs (foldl round256 hs (zip K256 (schedule 48 block)))"

fun blocks :: "nat \<Rightarrow> u32 list \<Rightarrow> u32 list \<Rightarrow> u32 list" where
  "blocks 0 hs ws = hs"
| "blocks (Suc n) hs ws = blocks n (compress hs (take 16 ws)) (drop 16 ws)"

definition sha256 :: "byte list \<Rightarrow> byte list" where
  "sha256 m =
     (let ws = be_words (pad m)
      in concat (map (\<lambda>h. map (\<lambda>i. ucast (drop_bit (8 * (3 - i)) h)) [0..<4])
                     (blocks (length ws div 16) H256 ws)))"

definition b64_alphabet :: string where
  "b64_alphabet = ''ABCDEFGHIJKLMNOPQRSTUVWXYZabcdefghijklmnopqrstuvwxyz0123456789-_''"

definition sextet :: "byte \<Rightarrow> char" where
  "sextet w = b64_alphabet ! unat (w AND 63)"

fun urlsafe_b64encode :: "byte list \<Rightarrow> string" where
  "urlsafe_b64encode (a # b # c # rest) =
     [sextet (drop_bit 2 a), sextet (push_bit 4 a OR drop_bit 4 b),
      sextet (push_bit 2 b OR drop_bit 6 c), sextet c] @ urlsafe_b64encode rest"
| "urlsafe_b64encode [a, b] =
     [sextet (drop_bit 2 a), sextet (push_bit 4 a OR drop_bit 4 b), sextet (push_bit 2 b), CHR ''='']"
| "urlsafe_b64encode [a] = [sextet (drop_bit 2 a), sextet (push_bit 4 a), CHR ''='', CHR ''='']"
| "urlsafe_b64encode [] = []"

definition rstrip :: "char \<Rightarrow> string \<Rightarrow> string" where
  "rstrip c s = rev (dropWhile (\<lambda>x. x = c) (rev s))"

definition s256 :: "string \<Rightarrow> error + string" where
  "s256 v =
     (case encode v of
        Inl e \<Rightarrow> Inl e
      | Inr bytes \<Rightarrow> Inr (rstrip CHR ''='' (urlsafe_b64encode (sha256 bytes))))"

section \<open>Data model of \<^verbatim>\<open>devops_mcp/oauth.py\<close>\<close>

text \<open>
  The client id, redirect URI, code challenge, challenge method and code verifier reach
  the module from \<^verbatim>\<open>.get(...)\<close> on the request and may be \<^verbatim>\<open>None\<close>; they are
  \<^typ>\<open>string option\<close>. The keys of the stores (code, access token, refresh token) are
  the strings that \<^verbatim>\<open>secrets.token_urlsafe\<close> returned, and the key looked up is a
  string. A \<^verbatim>\<open>datetime\<close> is the number of microseconds on its own axis, a
  \<^verbatim>\<open>timedelta\<close> a number of microseconds; the range of \<^verbatim>\<open>datetime\<close> (years 1 to
  9999) is not modelled.
\<close>

type_synonym datetime = int

definition timedelta_minutes :: "int \<Rightarrow> int" where
  "timedelta_minutes n = n * 60000000"

definition timedelta_seconds :: "int \<Rightarrow> int" where
  "timedelta_seconds n = n * 1000000"

text \<open>Python truth value of an optional string: \<^verbatim>\<open>None\<close> and \<^verbatim>\<open>""\<close> are false.\<close>

fun truthy :: "string option \<Rightarrow> bool" where
  "truthy None = False"
| "truthy (Some v) = (v \<noteq> [])"

datatype json =
    JNull | JBool bool | JInt int | JStr string | JList "json list" | JObj "(string \<times> json) list"

record client_data =
  cd_client_id :: string
  cd_client_secret :: string
  cd_client_id_issued_at :: int
  cd_client_secret_expires_at :: int
  cd_redirect_uris :: json
  cd_token_endpoint_auth_method :: json
  cd_grant_types :: json
  cd_response_types :: json
  cd_client_name :: json
  cd_scope :: json

record authorization_code =
  ac_client_id :: "string option"
  ac_redirect_uri :: "string option"
  ac_scope :: string
  code_challenge :: "string option"
  code_challenge_method :: "string option"
  ac_created_at :: datetime
  ac_expires_at :: datetime

record access_token_data =
  at_client_id :: "string option"
  at_scope :: string
  at_created_at :: datetime
  at_expires_at :: datetime

record refresh_token_data =
  rt_client_id :: "string option"
  rt_scope :: string
  rt_created_at :: datetime

record token_response =
  access_token :: string
  token_type :: string
  expires_in :: int
  refresh_token :: string
  scope :: string

text \<open>
  The state of the process: the four module-level dictionaries, and what its functions
  read from outside the module. \<^verbatim>\<open>datetime.utcnow()\<close>, \<^verbatim>\<open>secrets.token_urlsafe(32)\<close>
  and \<^verbatim>\<open>str(uuid.uuid4())\<close> are each the stream of the values still to come.
  \<open>to_timestamp\<close> is \<^verbatim>\<open>int(d.timestamp())\<close> for a naive datetime \<open>d\<close>, which depends
  on the local time zone of the process and goes through a double.
\<close>

record oauth_state =
  registered_clients :: "string \<rightharpoonup> client_data"
  authorization_codes :: "string \<rightharpoonup> authorization_code"
  access_tokens :: "string \<rightharpoonup> access_token_data"
  refresh_tokens :: "string \<rightharpoonup> refresh_token_data"
  clock :: "datetime stream"
  rng :: "string stream"
  uuids :: "string stream"
  to_timestamp :: "datetime \<Rightarrow> int"

definition utcnow :: "oauth_state \<Rightarrow> datetime \<times> oauth_state" where
  "utcnow s = (shd (clock s), s\<lparr>clock := stl (clock s)\<rparr>)"

definition token_urlsafe :: "oauth_state \<Rightarrow> string \<times> oauth_state" where
  "token_urlsafe s = (shd (rng s), s\<lparr>rng := stl (rng s)\<rparr>)"

definition uuid4 :: "oauth_state \<Rightarrow> string \<times> oauth_state" where
  "uuid4 s = (shd (uuids s), s\<lparr>uuids := stl (uuids s)\<rparr>)"

section \<open>The functions of \<^verbatim>\<open>oauth.py\<close>\<close>

text \<open>\<^verbatim>\<open>dict.get(key, default)\<close>.\<close>

definition get_default :: "(string \<rightharpoonup> json) \<Rightarrow> string \<Rightarrow> json \<Rightarrow> json" where
  "get_default d k dflt = (case d k of None \<Rightarrow> dflt | Some v \<Rightarrow> v)"

definition register_client :: "(string \<rightharpoonup> json) \<Rightarrow> oauth_state \<Rightarrow> client_data \<times> oauth_state" where
  "register_client client_metadata s =
     (let (client_id, s1) = uuid4 s;
          (client_secret, s2) = token_urlsafe s1;
          (now, s3) = utcnow s2;
          client_data = \<lparr>
            cd_client_id = client_id,
            cd_client_secret = client_secret,
            cd_client_id_issued_at = to_timestamp s3 now,
            cd_client_secret_expires_at = 0,
            cd_redirect_uris = get_default client_metadata ''redirect_uris'' (JList []),
            cd_token_endpoint_auth_method =
              get_default client_metadata ''token_endpoint_auth_method'' (JStr ''client_secret_basic''),
            cd_grant_types =
              get_default client_metadata ''grant_types''
                (JList [JStr ''authorization_code'', JStr ''refresh_token'']),
            cd_response_types = get_default client_metadata ''response_types'' (JList [JStr ''code'']),
            cd_client_name = get_default client_metadata ''client_name'' (JStr ''Unknown Client''),
            cd_scope = get_default client_metadata ''scope'' (JStr ''mcp:tools mcp:resources'')\<rparr>
      in (client_data,
          s3\<lparr>registered_clients := (registered_clients s3)(client_id \<mapsto> client_data)\<rparr>))"

definition create_authorization_code ::
  "string option \<Rightarrow> string option \<Rightarrow> string \<Rightarrow> string option \<Rightarrow> string option \<Rightarrow>
   oauth_state \<Rightarrow> string \<times> oauth_state" where
  "create_authorization_code client_id redirect_uri scp challenge method s =
     (let (code, s1) = token_urlsafe s;
          (t1, s2) = utcnow s1;
          (t2, s3) = utcnow s2
      in (code,
          s3\<lparr>authorization_codes := (authorization_codes s3)(code \<mapsto> \<lparr>
                ac_client_id = client_id,
                ac_redirect_uri = redirect_uri,
                ac_scope = scp,
                code_challenge = challenge,
                code_challenge_method = method,
                ac_created_at = t1,
                ac_expires_at = t2 + timedelta_minutes 10\<rparr>)\<rparr>))"

text \<open>
  Lines 128 to 139, the block \<^verbatim>\<open># Validate PKCE if used\<close>: \<open>Inr False\<close> where the
  block returns \<^verbatim>\<open>None\<close>, \<open>Inr True\<close> where control falls through it, \<open>Inl\<close> where
  line 134 raises.
\<close>

definition pkce_passes :: "authorization_code \<Rightarrow> string option \<Rightarrow> error + bool" where
  "pkce_passes auth_code code_verifier =
     (if truthy (code_challenge auth_code) then
        (case code_verifier of
           None \<Rightarrow> Inr False
         | Some v \<Rightarrow>
             if v = [] then Inr False
             else if code_challenge_method auth_code = Some ''S256'' then
               (case s256 v of
                  Inl e \<Rightarrow> Inl e
                | Inr expected \<Rightarrow> Inr (\<not> (Some expected \<noteq> code_challenge auth_code)))
             else Inr (\<not> (Some v \<noteq> code_challenge auth_code)))
      else Inr True)"

text \<open>
  The result is \<open>Inr None\<close> where the function returns \<^verbatim>\<open>None\<close>, \<open>Inr (Some tokens)\<close>
  where it returns the token dictionary and \<open>Inl\<close> where the exception of line 134
  leaves it; the state is the one at that moment.
\<close>

definition exchange_code_for_tokens ::
  "string \<Rightarrow> string option \<Rightarrow> string option \<Rightarrow> string option \<Rightarrow>
   oauth_state \<Rightarrow> (error + token_response option) \<times> oauth_state" where
  "exchange_code_for_tokens code client_id redirect_uri code_verifier s =
     (case authorization_codes s code of
        None \<Rightarrow> (Inr None, s)
      | Some auth_code \<Rightarrow>
          if ac_client_id auth_code \<noteq> client_id then (Inr None, s)
          else if ac_redirect_uri auth_code \<noteq> redirect_uri then (Inr None, s)
          else
            let (now, s1) = utcnow s in
            if ac_expires_at auth_code < now
            then (Inr None, s1\<lparr>authorization_codes := (authorization_codes s1)(code := None)\<rparr>)
            else
              (case pkce_passes auth_code code_verifier of
                 Inl e \<Rightarrow> (Inl e, s1)
               | Inr False \<Rightarrow> (Inr None, s1)
               | Inr True \<Rightarrow>
                   let s2 = s1\<lparr>authorization_codes := (authorization_codes s1)(code := None)\<rparr>;
                       (acc, s3) = token_urlsafe s2;
                       (rfr, s4) = token_urlsafe s3;
                       (t1, s5) = utcnow s4;
                       (t2, s6) = utcnow s5;
                       s7 = s6\<lparr>access_tokens := (access_tokens s6)(acc \<mapsto> \<lparr>
                              at_client_id = client_id,
                              at_scope = ac_scope auth_code,
                              at_created_at = t1,
                              at_expires_at = t2 + timedelta_seconds 3600\<rparr>)\<rparr>;
                       (t3, s8) = utcnow s7;
                       s9 = s8\<lparr>refresh_tokens := (refresh_tokens s8)(rfr \<mapsto> \<lparr>
                              rt_client_id = client_id,
                              rt_scope = ac_scope auth_code,
                              rt_created_at = t3\<rparr>)\<rparr>
                   in (Inr (Some \<lparr>access_token = acc, token_type = ''Bearer'', expires_in = 3600,
                                   refresh_token = rfr, scope = ac_scope auth_code\<rparr>), s9)))"

definition refresh_access_token ::
  "string \<Rightarrow> string option \<Rightarrow> oauth_state \<Rightarrow> token_response option \<times> oauth_state" where
  "refresh_access_token rfr client_id s =
     (case refresh_tokens s rfr of
        None \<Rightarrow> (None, s)
      | Some token_data \<Rightarrow>
          if rt_client_id token_data \<noteq> client_id then (None, s)
          else
            let (acc, s1) = token_urlsafe s;
                (t1, s2) = utcnow s1;
                (t2, s3) = utcnow s2;
                s4 = s3\<lparr>access_tokens := (access_tokens s3)(acc \<mapsto> \<lparr>
                       at_client_id = client_id,
                       at_scope = rt_scope token_data,
                       at_created_at = t1,
                       at_expires_at = t2 + timedelta_seconds 3600\<rparr>)\<rparr>
            in (Some \<lparr>access_token = acc, token_type = ''Bearer'', expires_in = 3600,
                       refresh_token = rfr, scope = rt_scope token_data\<rparr>, s4))"

definition validate_access_token ::
  "string \<Rightarrow> oauth_state \<Rightarrow> access_token_data option \<times> oauth_state" where
  "validate_access_token token s =
     (case access_tokens s token of
        None \<Rightarrow> (None, s)
      | Some token_data \<Rightarrow>
          let (now, s1) = utcnow s in
          if at_expires_at token_data < now
          then (None, s1\<lparr>access_tokens := (access_tokens s1)(token := None)\<rparr>)
          else (Some token_data, s1))"

section \<open>The transport gate of \<^verbatim>\<open>devops_mcp/__main__.py\<close>\<close>

text \<open>
  \<^verbatim>\<open>check_auth\<close> closes over \<^verbatim>\<open>auth_token\<close> (the \<^verbatim>\<open>--auth-token\<close> option or
  \<^verbatim>\<open>MCP_AUTH_TOKEN\<close>, \<^verbatim>\<open>None\<close> when neither is set); of the request it reads
  \<^verbatim>\<open>request.headers.get("Authorization", "")\<close> only.
\<close>

definition check_auth :: "string option \<Rightarrow> string \<Rightarrow> oauth_state \<Rightarrow> bool \<times> oauth_state" where
  "check_auth auth_token auth_header s =
     (if take 7 auth_header = ''Bearer '' then
        let token = drop 7 auth_header;
            (token_data, s1) = validate_access_token token s
        in if token_data \<noteq> None then (True, s1)
           else if truthy auth_token \<and> Some token = auth_token then (True, s1)
           else (False, s1)
      else if \<not> truthy auth_token then (True, s)
      else (False, s))"

section \<open>Sequences of calls\<close>

text \<open>
  The module is driven by a sequence of calls from the request handlers. A claim about
  "every later call" is stated over every such sequence.
\<close>

datatype call =
    Register_client "string \<rightharpoonup> json"
  | Create_authorization_code "string option" "string option" string "string option" "string option"
  | Exchange_code_for_tokens string "string option" "string option" "string option"
  | Refresh_access_token string "string option"
  | Validate_access_token string
  | Check_auth "string option" string

fun run_call :: "call \<Rightarrow> oauth_state \<Rightarrow> oauth_state" where
  "run_call (Register_client m) s = snd (register_client m s)"
| "run_call (Create_authorization_code c r sc ch m) s = snd (create_authorization_code c r sc ch m s)"
| "run_call (Exchange_code_for_tokens code c r v) s = snd (exchange_code_for_tokens code c r v s)"
| "run_call (Refresh_access_token t c) s = snd (refresh_access_token t c s)"
| "run_call (Validate_access_token t) s = snd (validate_access_token t s)"
| "run_call (Check_auth a h) s = snd (check_auth a h s)"

fun run_calls :: "call list \<Rightarrow> oauth_state \<Rightarrow> oauth_state" where
  "run_calls [] s = s"
| "run_calls (c # cs) s = run_calls cs (run_call c s)"

text \<open>
  The number of calls in a sequence that redeem the code \<open>code\<close>, that is, calls of
  \<^verbatim>\<open>exchange_code_for_tokens\<close> with it that return tokens.
\<close>

fun redeems :: "string \<Rightarrow> call \<Rightarrow> oauth_state \<Rightarrow> bool" where
  "redeems code (Exchange_code_for_tokens code' c r v) s =
     (code' = code \<and>
      (case fst (exchange_code_for_tokens code' c r v s) of
         Inr (Some tokens) \<Rightarrow> True
       | _ \<Rightarrow> False))"
| "redeems code _ s = False"

fun redemptions :: "string \<Rightarrow> call list \<Rightarrow> oauth_state \<Rightarrow> nat" where
  "redemptions code [] s = 0"
| "redemptions code (c # cs) s =
     (if redeems code c s then 1 else 0) + redemptions code cs (run_call c s)"


section \<open>A concrete run\<close>

text \<open>
  A process that has just started: empty stores, and fixed values for what the clock
  and the random source return. \<open>ticking\<close> advances one second with every reading;
  \<open>lapsing\<close> stands still at 0 for the two readings of
  \<^verbatim>\<open>create_authorization_code\<close> and is past the ten minutes afterwards.
\<close>

definition ticking :: "datetime stream" where
  "ticking = siterate (\<lambda>t. t + 1000000) 1700000000000000"

definition lapsing :: "datetime stream" where
  "lapsing = 0 ## 0 ## sconst 600000001"

definition fresh :: "datetime stream \<Rightarrow> oauth_state" where
  "fresh clk =
     \<lparr>registered_clients = Map.empty, authorization_codes = Map.empty,
      access_tokens = Map.empty, refresh_tokens = Map.empty,
      clock = clk,
      rng = ''code-1'' ## ''access-1'' ## ''refresh-1'' ## ''access-2'' ## ''access-3''
              ## sconst ''later'',
      uuids = sconst ''client-1'',
      to_timestamp = (\<lambda>t. t div 1000000)\<rparr>"

text \<open>
  The state after \<^verbatim>\<open>/oauth/authorize\<close> has issued \<open>code-1\<close> to client \<open>client-1\<close>
  for \<open>https://app/cb\<close>, with the given PKCE challenge and method.
\<close>

definition issued :: "datetime stream \<Rightarrow> string option \<Rightarrow> string option \<Rightarrow> oauth_state" where
  "issued clk challenge method =
     snd (create_authorization_code (Some ''client-1'') (Some ''https://app/cb'') ''mcp:tools''
            challenge method (fresh clk))"

text \<open>The state after that code has been redeemed without PKCE.\<close>

definition redeemed :: oauth_state where
  "redeemed =
     snd (exchange_code_for_tokens ''code-1'' (Some ''client-1'') (Some ''https://app/cb'') None
            (issued ticking None None))"

section \<open>Test vectors\<close>

lemma s256_of_abc123: "s256 ''abc123'' = Inr ''bKE9UspwyIPg8LsQHkJaiehiTeUdstI5JZOvaoQRgJA''"
  by code_simp

lemma s256_of_empty: "s256 [] = Inr ''47DEQpj8HBSa-_TImW-5JCeuQeRkm5NMpJWZG3hSuFU''"
  by code_simp

section \<open>The functions without their local bindings\<close>

lemma utcnow_simps [simp]:
  "fst (utcnow s) = shd (clock s)"
  "snd (utcnow s) = s\<lparr>clock := stl (clock s)\<rparr>"
  by (simp_all add: utcnow_def)

lemma token_urlsafe_simps [simp]:
  "fst (token_urlsafe s) = shd (rng s)"
  "snd (token_urlsafe s) = s\<lparr>rng := stl (rng s)\<rparr>"
  by (simp_all add: token_urlsafe_def)

lemma uuid4_simps [simp]:
  "fst (uuid4 s) = shd (uuids s)"
  "snd (uuid4 s) = s\<lparr>uuids := stl (uuids s)\<rparr>"
  by (simp_all add: uuid4_def)

lemma register_unfold:
  "snd (register_client m s) =
     s\<lparr>uuids := stl (uuids s), rng := stl (rng s), clock := stl (clock s),
       registered_clients := (registered_clients s)(shd (uuids s) \<mapsto> fst (register_client m s))\<rparr>"
  by (simp add: register_client_def split_def Let_def)

lemma create_unfold:
  "create_authorization_code c r sc ch m s =
     (shd (rng s),
      s\<lparr>rng := stl (rng s), clock := stl (stl (clock s)),
        authorization_codes := (authorization_codes s)(shd (rng s) \<mapsto> \<lparr>
          ac_client_id = c, ac_redirect_uri = r, ac_scope = sc, code_challenge = ch,
          code_challenge_method = m, ac_created_at = shd (clock s),
          ac_expires_at = shd (stl (clock s)) + timedelta_minutes 10\<rparr>)\<rparr>)"
  by (simp add: create_authorization_code_def split_def Let_def)

lemma exchange_unfold:
  "exchange_code_for_tokens code client_id redirect_uri code_verifier s =
     (case authorization_codes s code of
        None \<Rightarrow> (Inr None, s)
      | Some a \<Rightarrow>
          if ac_client_id a \<noteq> client_id \<or> ac_redirect_uri a \<noteq> redirect_uri then (Inr None, s)
          else if ac_expires_at a < shd (clock s)
          then (Inr None, s\<lparr>clock := stl (clock s),
                            authorization_codes := (authorization_codes s)(code := None)\<rparr>)
          else
            (case pkce_passes a code_verifier of
               Inl e \<Rightarrow> (Inl e, s\<lparr>clock := stl (clock s)\<rparr>)
             | Inr False \<Rightarrow> (Inr None, s\<lparr>clock := stl (clock s)\<rparr>)
             | Inr True \<Rightarrow>
                (Inr (Some \<lparr>access_token = shd (rng s), token_type = ''Bearer'',
                             expires_in = 3600, refresh_token = shd (stl (rng s)),
                             scope = ac_scope a\<rparr>),
                 s\<lparr>clock := stl (stl (stl (stl (clock s)))),
                   rng := stl (stl (rng s)),
                   authorization_codes := (authorization_codes s)(code := None),
                   access_tokens := (access_tokens s)(shd (rng s) \<mapsto> \<lparr>
                     at_client_id = client_id, at_scope = ac_scope a,
                     at_created_at = shd (stl (clock s)),
                     at_expires_at = shd (stl (stl (clock s))) + timedelta_seconds 3600\<rparr>),
                   refresh_tokens := (refresh_tokens s)(shd (stl (rng s)) \<mapsto> \<lparr>
                     rt_client_id = client_id, rt_scope = ac_scope a,
                     rt_created_at = shd (stl (stl (stl (clock s))))\<rparr>)\<rparr>)))"
  by (simp add: exchange_code_for_tokens_def split_def Let_def
           split: option.splits sum.splits bool.splits)

lemma refresh_unfold:
  "refresh_access_token rfr client_id s =
     (case refresh_tokens s rfr of
        None \<Rightarrow> (None, s)
      | Some d \<Rightarrow>
          if rt_client_id d \<noteq> client_id then (None, s)
          else (Some \<lparr>access_token = shd (rng s), token_type = ''Bearer'', expires_in = 3600,
                       refresh_token = rfr, scope = rt_scope d\<rparr>,
                s\<lparr>rng := stl (rng s), clock := stl (stl (clock s)),
                  access_tokens := (access_tokens s)(shd (rng s) \<mapsto> \<lparr>
                    at_client_id = client_id, at_scope = rt_scope d,
                    at_created_at = shd (clock s),
                    at_expires_at = shd (stl (clock s)) + timedelta_seconds 3600\<rparr>)\<rparr>))"
  by (simp add: refresh_access_token_def split_def Let_def
           split: option.splits)

lemma validate_unfold:
  "validate_access_token token s =
     (case access_tokens s token of
        None \<Rightarrow> (None, s)
      | Some d \<Rightarrow>
          if at_expires_at d < shd (clock s)
          then (None, s\<lparr>clock := stl (clock s),
                        access_tokens := (access_tokens s)(token := None)\<rparr>)
          else (Some d, s\<lparr>clock := stl (clock s)\<rparr>))"
  by (simp add: validate_access_token_def split_def Let_def split: option.splits)

lemma check_auth_unfold:
  "check_auth auth_token auth_header s =
     (if take 7 auth_header = ''Bearer '' then
        (fst (validate_access_token (drop 7 auth_header) s) \<noteq> None
           \<or> truthy auth_token \<and> Some (drop 7 auth_header) = auth_token,
         snd (validate_access_token (drop 7 auth_header) s))
      else (\<not> truthy auth_token, s))"
  by (simp add: check_auth_def split_def Let_def)

lemmas unfolds = register_unfold create_unfold exchange_unfold refresh_unfold validate_unfold
  check_auth_unfold

section \<open>What a sequence of calls preserves\<close>

lemma sset_stl: "sset (stl x) \<subseteq> sset x"
  by (auto dest: stl_sset)

lemma rng_run_call: "sset (rng (run_call c s)) \<subseteq> sset (rng s)"
proof -
  have a: "sset (stl (stl (rng s))) \<subseteq> sset (rng s)"
    using sset_stl [of "stl (rng s)"] sset_stl [of "rng s"] by blast
  show ?thesis
    using a sset_stl [of "rng s"]
    by (cases c) (auto simp: unfolds split: option.splits sum.splits bool.splits)
qed

lemma rng_run_calls: "sset (rng (run_calls cs s)) \<subseteq> sset (rng s)"
proof (induction cs arbitrary: s)
  case Nil
  show ?case by simp
next
  case (Cons c cs)
  show ?case using Cons.IH [of "run_call c s"] rng_run_call [of c s] by auto
qed

lemma codes_run_call:
  assumes "authorization_codes s code = None" and "code \<notin> sset (rng s)"
  shows "authorization_codes (run_call c s) code = None"
proof -
  have "shd (rng s) \<noteq> code" using assms(2) shd_sset [of "rng s"] by auto
  then show ?thesis
    using assms(1)
    by (cases c) (auto simp: unfolds split: option.splits sum.splits bool.splits)
qed

lemma codes_run_calls:
  "authorization_codes s code = None \<Longrightarrow> code \<notin> sset (rng s) \<Longrightarrow>
   authorization_codes (run_calls cs s) code = None"
proof (induction cs arbitrary: s)
  case Nil
  then show ?case by simp
next
  case (Cons c cs)
  have "code \<notin> sset (rng (run_call c s))"
    using Cons.prems(2) rng_run_call [of c s] by auto
  then show ?case
    using Cons.IH [of "run_call c s"] codes_run_call [OF Cons.prems] by simp
qed

lemma access_run_call:
  assumes "access_tokens s t = None" and "t \<notin> sset (rng s)"
  shows "access_tokens (run_call c s) t = None"
proof -
  have "shd (rng s) \<noteq> t" using assms(2) shd_sset [of "rng s"] by auto
  then show ?thesis
    using assms(1)
    by (cases c) (auto simp: unfolds split: option.splits sum.splits bool.splits)
qed

lemma access_run_calls:
  "access_tokens s t = None \<Longrightarrow> t \<notin> sset (rng s) \<Longrightarrow>
   access_tokens (run_calls cs s) t = None"
proof (induction cs arbitrary: s)
  case Nil
  then show ?case by simp
next
  case (Cons c cs)
  have "t \<notin> sset (rng (run_call c s))"
    using Cons.prems(2) rng_run_call [of c s] by auto
  then show ?case
    using Cons.IH [of "run_call c s"] access_run_call [OF Cons.prems] by simp
qed

lemma redemptions_absent:
  "authorization_codes s code = None \<Longrightarrow> code \<notin> sset (rng s) \<Longrightarrow> redemptions code cs s = 0"
proof (induction cs arbitrary: s)
  case Nil
  show ?case by simp
next
  case (Cons c cs)
  have r: "code \<notin> sset (rng (run_call c s))"
    using Cons.prems(2) rng_run_call [of c s] by auto
  have n: "\<not> redeems code c s"
    using Cons.prems(1) by (cases c) (simp_all add: exchange_unfold)
  show ?case
    using n Cons.IH [OF codes_run_call [OF Cons.prems] r] by simp
qed

lemma redemptions_le_1: "code \<notin> sset (rng s) \<Longrightarrow> redemptions code cs s \<le> 1"
proof (induction cs arbitrary: s)
  case Nil
  show ?case by simp
next
  case (Cons c cs)
  have r: "code \<notin> sset (rng (run_call c s))"
    using Cons.prems rng_run_call [of c s] by auto
  show ?case
  proof (cases "redeems code c s")
    case True
    then obtain cl ru v tokens where c: "c = Exchange_code_for_tokens code cl ru v"
      and ok: "fst (exchange_code_for_tokens code cl ru v s) = Inr (Some tokens)"
      by (cases c) (auto split: sum.splits option.splits)
    have "authorization_codes (run_call c s) code = None"
      using ok
      by (auto simp: c exchange_unfold split: option.splits if_splits sum.splits bool.splits)
    then show ?thesis
      using True redemptions_absent [OF _ r, of cs] by simp
  next
    case False
    then show ?thesis using Cons.IH [OF r] by simp
  qed
qed

subsection \<open>A stored access token under a clock that does not run backwards\<close>









section \<open>The claims\<close>

lemmas ex_defs = issued_def redeemed_def fresh_def ticking_def lapsing_def
  timedelta_minutes_def timedelta_seconds_def pkce_passes_def

subsection \<open>C1: an authorization code is redeemed at most once\<close>

text \<open>
  Claim C1. In a sequence of calls during which the random source does not return
  \<open>code\<close> again (so that \<^verbatim>\<open>create_authorization_code\<close> does not store it a second
  time), at most one call of \<^verbatim>\<open>exchange_code_for_tokens\<close> with \<open>code\<close> returns tokens.
  A call that returns tokens leaves \<open>code\<close> out of the code store; the next call with
  \<open>code\<close> returns \<^verbatim>\<open>None\<close> whatever client, redirect URI and verifier it gives, the
  bound ones included, and so does every call with \<open>code\<close> after any further sequence
  of calls.
\<close>

theorem authorization_code_single_use:
  "(code \<notin> sset (rng s) \<longrightarrow> redemptions code calls s \<le> 1) \<and>
   (exchange_code_for_tokens code client_id redirect_uri code_verifier s
      = (Inr (Some tokens), s') \<longrightarrow>
      authorization_codes s' code = None \<and>
      (\<forall>c r v. fst (exchange_code_for_tokens code c r v s') = Inr None) \<and>
      (code \<notin> sset (rng s') \<longrightarrow>
         (\<forall>later c r v.
            fst (exchange_code_for_tokens code c r v (run_calls later s')) = Inr None)))"
proof (intro conjI impI)
  assume "code \<notin> sset (rng s)"
  then show "redemptions code calls s \<le> 1" by (rule redemptions_le_1)
next
  assume ok: "exchange_code_for_tokens code client_id redirect_uri code_verifier s
                = (Inr (Some tokens), s')"
  then show gone: "authorization_codes s' code = None"
    by (auto simp: exchange_unfold split: option.splits if_splits sum.splits bool.splits)
  then show "\<forall>c r v. fst (exchange_code_for_tokens code c r v s') = Inr None"
    by (simp add: exchange_unfold)
  assume "code \<notin> sset (rng s')"
  then have "authorization_codes (run_calls later s') code = None" for later
    using gone by (rule codes_run_calls [rotated])
  then show "\<forall>later c r v.
      fst (exchange_code_for_tokens code c r v (run_calls later s')) = Inr None"
    by (simp add: exchange_unfold)
qed

text \<open>
  On the concrete run: \<open>code-1\<close> is redeemed once, is gone afterwards, and a second
  redemption with the same parameters fails, also after a refresh in between.
\<close>

theorem authorization_code_single_use_witness:
  "''code-1'' \<notin> sset (rng (issued ticking None None)) \<and>
   redemptions ''code-1''
     [Exchange_code_for_tokens ''code-1'' (Some ''client-1'') (Some ''https://app/cb'') None,
      Exchange_code_for_tokens ''code-1'' (Some ''client-1'') (Some ''https://app/cb'') None]
     (issued ticking None None) \<le> 1 \<and>
   (\<exists>tokens. fst (exchange_code_for_tokens ''code-1'' (Some ''client-1'')
                    (Some ''https://app/cb'') None (issued ticking None None))
              = Inr (Some tokens)) \<and>
   authorization_codes redeemed ''code-1'' = None \<and>
   fst (exchange_code_for_tokens ''code-1'' (Some ''client-1'') (Some ''https://app/cb'') None
          (run_calls [Refresh_access_token ''refresh-1'' (Some ''client-1'')] redeemed))
     = Inr None"
proof -
  let ?s = "issued ticking None None"
  let ?x = "exchange_code_for_tokens ''code-1'' (Some ''client-1'') (Some ''https://app/cb'') None ?s"
  let ?t = "\<lparr>access_token = ''access-1'', token_type = ''Bearer'', expires_in = 3600,
            refresh_token = ''refresh-1'', scope = ''mcp:tools''\<rparr>"
  have h1: "''code-1'' \<notin> sset (rng ?s)"
    by (simp add: ex_defs create_unfold)
  have h2: "fst ?x = Inr (Some ?t)"
    by (simp add: ex_defs create_unfold exchange_unfold)
  then have h3: "?x = (Inr (Some ?t), redeemed)"
    by (simp add: redeemed_def prod_eq_iff)
  have h4: "''code-1'' \<notin> sset (rng redeemed)"
    by (simp add: ex_defs create_unfold exchange_unfold)
  show ?thesis
    using h1 h2 h3 h4
      authorization_code_single_use [of "''code-1''" ?s _ "Some ''client-1''"
        "Some ''https://app/cb''" None ?t redeemed]
    by blast
qed

subsection \<open>C2: the code is deleted only after validation\<close>

text \<open>
  Claim C2. A call of \<^verbatim>\<open>exchange_code_for_tokens\<close> that returns tokens has found the
  code, matched client and redirect URI, found it unexpired and passed the PKCE block, and
  has deleted the code. A call that returns \<^verbatim>\<open>None\<close> changes neither token store and
  draws no token; it leaves the code store as it was, except when it evicts an expired
  code whose client and redirect URI matched. A call that line 134 leaves with an
  exception changes none of the three stores and draws no token.
\<close>

theorem exchange_deletes_only_after_validation:
  assumes "exchange_code_for_tokens code client_id redirect_uri code_verifier s = (res, s')"
  shows
    "((\<exists>tokens. res = Inr (Some tokens)) \<longrightarrow>
        (\<exists>a. authorization_codes s code = Some a \<and> ac_client_id a = client_id \<and>
             ac_redirect_uri a = redirect_uri \<and> \<not> ac_expires_at a < shd (clock s) \<and>
             pkce_passes a code_verifier = Inr True) \<and>
        authorization_codes s' = (authorization_codes s)(code := None)) \<and>
     (res = Inr None \<longrightarrow>
        access_tokens s' = access_tokens s \<and> refresh_tokens s' = refresh_tokens s \<and>
        rng s' = rng s \<and>
        (authorization_codes s' = authorization_codes s \<or>
         authorization_codes s' = (authorization_codes s)(code := None) \<and>
         (\<exists>a. authorization_codes s code = Some a \<and> ac_client_id a = client_id \<and>
              ac_redirect_uri a = redirect_uri \<and> ac_expires_at a < shd (clock s)))) \<and>
     ((\<exists>e. res = Inl e) \<longrightarrow>
        access_tokens s' = access_tokens s \<and> refresh_tokens s' = refresh_tokens s \<and>
        rng s' = rng s \<and> authorization_codes s' = authorization_codes s)"
  using assms
  by (auto simp: exchange_unfold split: option.splits if_splits sum.splits bool.splits)

text \<open>
  A wrong \<open>plain\<close> verifier: no tokens, and the code is still in the store. A verifier
  that is the lone surrogate U+D800, under S256: the exception, and the code is still in
  the store.
\<close>

theorem exchange_deletes_only_after_validation_witness:
  "fst (exchange_code_for_tokens ''code-1'' (Some ''client-1'') (Some ''https://app/cb'')
          (Some ''wrong'') (issued ticking (Some ''right'') (Some ''plain''))) = Inr None \<and>
   authorization_codes
     (snd (exchange_code_for_tokens ''code-1'' (Some ''client-1'') (Some ''https://app/cb'')
             (Some ''wrong'') (issued ticking (Some ''right'') (Some ''plain''))))
   = authorization_codes (issued ticking (Some ''right'') (Some ''plain'')) \<and>
   authorization_codes (issued ticking (Some ''right'') (Some ''plain'')) ''code-1'' \<noteq> None \<and>
   access_tokens
     (snd (exchange_code_for_tokens ''code-1'' (Some ''client-1'') (Some ''https://app/cb'')
             (Some ''wrong'') (issued ticking (Some ''right'') (Some ''plain''))))
   = Map.empty \<and>
   fst (exchange_code_for_tokens ''code-1'' (Some ''client-1'') (Some ''https://app/cb'')
          (Some [CHR 0xED, CHR 0xA0, CHR 0x80])
          (issued ticking (Some ''right'') (Some ''S256''))) = Inl UnicodeEncodeError \<and>
   authorization_codes
     (snd (exchange_code_for_tokens ''code-1'' (Some ''client-1'') (Some ''https://app/cb'')
             (Some [CHR 0xED, CHR 0xA0, CHR 0x80])
             (issued ticking (Some ''right'') (Some ''S256''))))
   = authorization_codes (issued ticking (Some ''right'') (Some ''S256''))"
proof -
  let ?s = "issued ticking (Some ''right'') (Some ''plain'')"
  let ?x = "exchange_code_for_tokens ''code-1'' (Some ''client-1'') (Some ''https://app/cb'')
              (Some ''wrong'') ?s"
  let ?u = "issued ticking (Some ''right'') (Some ''S256'')"
  let ?y = "exchange_code_for_tokens ''code-1'' (Some ''client-1'') (Some ''https://app/cb'')
              (Some [CHR 0xED, CHR 0xA0, CHR 0x80]) ?u"
  have h1: "fst ?x = Inr None"
    by (simp add: ex_defs create_unfold exchange_unfold)
  have h2: "?x = (Inr None, snd ?x)"
    using h1 by (simp add: prod_eq_iff)
  have h3: "\<not> ac_expires_at (the (authorization_codes ?s ''code-1'')) < shd (clock ?s)"
    by (simp add: ex_defs create_unfold)
  have h4: "authorization_codes ?s ''code-1'' \<noteq> None"
    by (simp add: ex_defs create_unfold)
  have h5: "access_tokens ?s = Map.empty"
    by (simp add: ex_defs create_unfold)
  have h6: "fst ?y = Inl UnicodeEncodeError"
    by (simp add: ex_defs create_unfold exchange_unfold s256_def encode_def)
  have h7: "?y = (Inl UnicodeEncodeError, snd ?y)"
    using h6 by (simp add: prod_eq_iff)
  show ?thesis
    using h1 h3 h4 h5 h6 exchange_deletes_only_after_validation [OF h2]
      exchange_deletes_only_after_validation [OF h7]
    by auto
qed

subsection \<open>C3: PKCE with method S256\<close>

text \<open>
  As stated, C3 has the exchange succeed exactly when the verifier hashes to the stored
  challenge. The empty verifier encodes to no bytes, which hash to
  \<open>47DEQpj8HBSa-_TImW-5JCeuQeRkm5NMpJWZG3hSuFU\<close>; with that challenge stored under S256,
  client and redirect URI matching and the code unexpired, the exchange with the verifier
  \<^verbatim>\<open>""\<close> returns \<^verbatim>\<open>None\<close>: line 130 takes an empty verifier for a missing one.
\<close>

theorem s256_redemption_counterexample:
  "authorization_codes
     (issued ticking (Some ''47DEQpj8HBSa-_TImW-5JCeuQeRkm5NMpJWZG3hSuFU'') (Some ''S256''))
     ''code-1''
   = Some \<lparr>ac_client_id = Some ''client-1'', ac_redirect_uri = Some ''https://app/cb'',
            ac_scope = ''mcp:tools'',
            code_challenge = Some ''47DEQpj8HBSa-_TImW-5JCeuQeRkm5NMpJWZG3hSuFU'',
            code_challenge_method = Some ''S256'',
            ac_created_at = 1700000000000000, ac_expires_at = 1700000601000000\<rparr> \<and>
   shd (clock (issued ticking (Some ''47DEQpj8HBSa-_TImW-5JCeuQeRkm5NMpJWZG3hSuFU'')
                 (Some ''S256''))) = 1700000002000000 \<and>
   encode [] = Inr [] \<and>
   rstrip CHR ''='' (urlsafe_b64encode (sha256 []))
   = ''47DEQpj8HBSa-_TImW-5JCeuQeRkm5NMpJWZG3hSuFU'' \<and>
   fst (exchange_code_for_tokens ''code-1'' (Some ''client-1'') (Some ''https://app/cb'')
          (Some [])
          (issued ticking (Some ''47DEQpj8HBSa-_TImW-5JCeuQeRkm5NMpJWZG3hSuFU'') (Some ''S256'')))
   = Inr None"
  using s256_of_empty
  by (simp add: ex_defs create_unfold exchange_unfold s256_def encode_def)

text \<open>
  Claim C3, amended. A non-empty code challenge is stored with method \<open>S256\<close>, client and
  redirect URI match and the code is unexpired. Then, for no verifier and for every
  verifier that \<^verbatim>\<open>.encode()\<close> encodes, \<^verbatim>\<open>exchange_code_for_tokens\<close> returns tokens
  exactly when the verifier is non-empty and its SHA-256 digest, base64url-encoded with
  the \<open>=\<close> padding stripped, is equal to the stored challenge; with no verifier, with the
  empty one and with one whose digest is another string it returns \<^verbatim>\<open>None\<close>. The
  amended claim says nothing of a verifier that \<^verbatim>\<open>.encode()\<close> refuses.
\<close>

theorem s256_redemption:
  assumes "authorization_codes s code = Some a"
    and "code_challenge a = Some challenge" and "challenge \<noteq> []"
    and "code_challenge_method a = Some ''S256''"
    and "ac_client_id a = client_id" and "ac_redirect_uri a = redirect_uri"
    and "\<not> ac_expires_at a < shd (clock s)"
  shows
    "(code_verifier = None \<or> (\<exists>v bytes. code_verifier = Some v \<and> encode v = Inr bytes) \<longrightarrow>
        (\<exists>tokens. fst (exchange_code_for_tokens code client_id redirect_uri code_verifier s)
                   = Inr (Some tokens))
        = (\<exists>v bytes. code_verifier = Some v \<and> v \<noteq> [] \<and> encode v = Inr bytes \<and>
              rstrip CHR ''='' (urlsafe_b64encode (sha256 bytes)) = challenge)) \<and>
     (code_verifier = None \<or> code_verifier = Some [] \<or>
      (\<exists>v bytes. code_verifier = Some v \<and> encode v = Inr bytes \<and>
          rstrip CHR ''='' (urlsafe_b64encode (sha256 bytes)) \<noteq> challenge) \<longrightarrow>
        fst (exchange_code_for_tokens code client_id redirect_uri code_verifier s) = Inr None)"
  using assms
  by (auto simp: exchange_unfold pkce_passes_def s256_def
           split: option.splits sum.splits bool.splits)

text \<open>
  The verifier \<open>abc123\<close> against its own challenge, and the empty verifier against that
  challenge and against its own.
\<close>

theorem s256_redemption_witness:
  "(\<exists>tokens.
      fst (exchange_code_for_tokens ''code-1'' (Some ''client-1'') (Some ''https://app/cb'')
             (Some ''abc123'')
             (issued ticking (Some ''bKE9UspwyIPg8LsQHkJaiehiTeUdstI5JZOvaoQRgJA'')
                (Some ''S256''))) = Inr (Some tokens)) \<and>
   fst (exchange_code_for_tokens ''code-1'' (Some ''client-1'') (Some ''https://app/cb'')
          (Some [])
          (issued ticking (Some ''bKE9UspwyIPg8LsQHkJaiehiTeUdstI5JZOvaoQRgJA'') (Some ''S256'')))
   = Inr None \<and>
   fst (exchange_code_for_tokens ''code-1'' (Some ''client-1'') (Some ''https://app/cb'')
          (Some [])
          (issued ticking (Some ''47DEQpj8HBSa-_TImW-5JCeuQeRkm5NMpJWZG3hSuFU'') (Some ''S256'')))
   = Inr None"
proof -
  let ?ch = "''bKE9UspwyIPg8LsQHkJaiehiTeUdstI5JZOvaoQRgJA''"
  let ?ce = "''47DEQpj8HBSa-_TImW-5JCeuQeRkm5NMpJWZG3hSuFU''"
  let ?s = "\<lambda>ch. issued ticking (Some ch) (Some ''S256'')"
  let ?a = "\<lambda>ch. \<lparr>ac_client_id = Some ''client-1'', ac_redirect_uri = Some ''https://app/cb'',
            ac_scope = ''mcp:tools'', code_challenge = Some ch,
            code_challenge_method = Some ''S256'',
            ac_created_at = 1700000000000000, ac_expires_at = 1700000601000000\<rparr>"
  have h1: "authorization_codes (?s ch) ''code-1'' = Some (?a ch)" for ch
    by (simp add: ex_defs create_unfold)
  have h2: "\<not> ac_expires_at (?a ch) < shd (clock (?s ch))" for ch
    by (simp add: ex_defs create_unfold)
  have h3: "encode ''abc123'' = Inr (map (\<lambda>c. of_nat (of_char c)) ''abc123'')"
    by (simp add: encode_def)
  have h4: "rstrip CHR ''='' (urlsafe_b64encode (sha256 (map (\<lambda>c. of_nat (of_char c)) ''abc123'')))
            = ?ch"
    using s256_of_abc123 by (simp add: s256_def encode_def)
  note t = s256_redemption [where client_id = "Some ''client-1''"
    and redirect_uri = "Some ''https://app/cb''" and code = "''code-1''"]
  have c1: "\<exists>tokens.
      fst (exchange_code_for_tokens ''code-1'' (Some ''client-1'') (Some ''https://app/cb'')
             (Some ''abc123'') (?s ?ch)) = Inr (Some tokens)"
    using t [OF h1 [of ?ch] _ _ _ _ _ h2 [of ?ch], where challenge = ?ch
               and code_verifier = "Some ''abc123''"] h3 h4
    by simp
  have c2: "fst (exchange_code_for_tokens ''code-1'' (Some ''client-1'') (Some ''https://app/cb'')
          (Some []) (?s ?ch)) = Inr None"
    using t [OF h1 [of ?ch] _ _ _ _ _ h2 [of ?ch], where challenge = ?ch
               and code_verifier = "Some []"]
    by simp
  have c3: "fst (exchange_code_for_tokens ''code-1'' (Some ''client-1'') (Some ''https://app/cb'')
          (Some []) (?s ?ce)) = Inr None"
    using t [OF h1 [of ?ce] _ _ _ _ _ h2 [of ?ce], where challenge = ?ce
               and code_verifier = "Some []"]
    by simp
  show ?thesis
    using c1 c2 c3 by simp
qed

text \<open>
  What the code does with a verifier that holds a lone surrogate, where the amended
  claim is silent: under S256, line 134 raises; one clock reading is gone, the code stays in the
  store and no token is made. (\<^verbatim>\<open>oauth_token\<close> in \<^verbatim>\<open>__main__.py\<close> turns the exception
  into the response 500 \<open>server_error\<close>.)
\<close>

lemma exchange_raises_on_surrogate:
  assumes "authorization_codes s code = Some a"
    and "truthy (code_challenge a)" and "code_challenge_method a = Some ''S256''"
    and "ac_client_id a = client_id" and "ac_redirect_uri a = redirect_uri"
    and "\<not> ac_expires_at a < shd (clock s)"
    and "v \<noteq> []" and "has_surrogate v"
  shows "exchange_code_for_tokens code client_id redirect_uri (Some v) s
         = (Inl UnicodeEncodeError, s\<lparr>clock := stl (clock s)\<rparr>)"
  using assms
  by (simp add: exchange_unfold pkce_passes_def s256_def encode_def)

subsection \<open>C4: PKCE with method plain\<close>

text \<open>
  Claim C4. When a code challenge was recorded (line 129: a non-empty one) and the stored
  method is anything but \<open>S256\<close>, \<^verbatim>\<open>None\<close> included, client and redirect URI match
  and the code is unexpired, \<^verbatim>\<open>exchange_code_for_tokens\<close> returns tokens exactly when
  the verifier is the stored challenge, and \<^verbatim>\<open>None\<close> otherwise. Whenever a challenge
  was recorded and no verifier is supplied, it returns \<^verbatim>\<open>None\<close>.
\<close>

theorem plain_redemption:
  assumes "authorization_codes s code = Some a"
    and "code_challenge a = Some challenge" and "challenge \<noteq> []"
  shows "(code_challenge_method a \<noteq> Some ''S256'' \<and> ac_client_id a = client_id \<and>
          ac_redirect_uri a = redirect_uri \<and> \<not> ac_expires_at a < shd (clock s) \<longrightarrow>
            ((\<exists>tokens. fst (exchange_code_for_tokens code client_id redirect_uri code_verifier s)
                        = Inr (Some tokens))
             = (code_verifier = Some challenge)) \<and>
            (code_verifier \<noteq> Some challenge \<longrightarrow>
               fst (exchange_code_for_tokens code client_id redirect_uri code_verifier s)
               = Inr None)) \<and>
         fst (exchange_code_for_tokens code client_id redirect_uri None s) = Inr None"
  using assms
  by (auto simp: exchange_unfold pkce_passes_def split: option.splits sum.splits bool.splits)

text \<open>The challenge \<open>secret\<close>: redeemed with \<open>secret\<close>, not with \<open>Secret\<close>, not without.\<close>

theorem plain_redemption_witness:
  "(\<exists>tokens.
      fst (exchange_code_for_tokens ''code-1'' (Some ''client-1'') (Some ''https://app/cb'')
             (Some ''secret'') (issued ticking (Some ''secret'') (Some ''plain'')))
      = Inr (Some tokens)) \<and>
   fst (exchange_code_for_tokens ''code-1'' (Some ''client-1'') (Some ''https://app/cb'')
          (Some ''Secret'') (issued ticking (Some ''secret'') (Some ''plain''))) = Inr None \<and>
   fst (exchange_code_for_tokens ''code-1'' (Some ''client-1'') (Some ''https://app/cb'')
          None (issued ticking (Some ''secret'') (Some ''plain''))) = Inr None"
proof -
  let ?s = "issued ticking (Some ''secret'') (Some ''plain'')"
  let ?a = "\<lparr>ac_client_id = Some ''client-1'', ac_redirect_uri = Some ''https://app/cb'',
            ac_scope = ''mcp:tools'', code_challenge = Some ''secret'',
            code_challenge_method = Some ''plain'',
            ac_created_at = 1700000000000000, ac_expires_at = 1700000601000000\<rparr>"
  have h1: "authorization_codes ?s ''code-1'' = Some ?a"
    by (simp add: ex_defs create_unfold)
  have h2: "\<not> ac_expires_at ?a < shd (clock ?s)"
    by (simp add: ex_defs create_unfold)
  note t = plain_redemption [OF h1, of "''secret''" "Some ''client-1''" "Some ''https://app/cb''"]
  show ?thesis
    using h2 t [of "Some ''secret''"] t [of "Some ''Secret''"] by simp
qed

subsection \<open>C5: an expired code is evicted\<close>

text \<open>
  Claim C5. When the stored code expires strictly before the time that
  \<^verbatim>\<open>datetime.utcnow()\<close> returns, and client and redirect URI match,
  \<^verbatim>\<open>exchange_code_for_tokens\<close> returns \<^verbatim>\<open>None\<close> and removes the code, and a second
  attempt with the code, with any parameters, returns \<^verbatim>\<open>None\<close> too.
\<close>

theorem expired_code_is_evicted:
  assumes "authorization_codes s code = Some a"
    and "ac_client_id a = client_id" and "ac_redirect_uri a = redirect_uri"
    and "ac_expires_at a < shd (clock s)"
  shows "fst (exchange_code_for_tokens code client_id redirect_uri code_verifier s) = Inr None \<and>
         authorization_codes (snd (exchange_code_for_tokens code client_id redirect_uri code_verifier s))
           = (authorization_codes s)(code := None) \<and>
         fst (exchange_code_for_tokens code c r v
                (snd (exchange_code_for_tokens code client_id redirect_uri code_verifier s)))
           = Inr None"
  using assms by (simp add: exchange_unfold)

text \<open>A code issued at 0, redeemed just after its ten minutes.\<close>

theorem expired_code_is_evicted_witness:
  "authorization_codes (issued lapsing None None) ''code-1'' \<noteq> None \<and>
   fst (exchange_code_for_tokens ''code-1'' (Some ''client-1'') (Some ''https://app/cb'') None
          (issued lapsing None None)) = Inr None \<and>
   authorization_codes
     (snd (exchange_code_for_tokens ''code-1'' (Some ''client-1'') (Some ''https://app/cb'') None
             (issued lapsing None None))) ''code-1'' = None \<and>
   fst (exchange_code_for_tokens ''code-1'' (Some ''client-1'') (Some ''https://app/cb'') None
          (snd (exchange_code_for_tokens ''code-1'' (Some ''client-1'') (Some ''https://app/cb'')
                  None (issued lapsing None None)))) = Inr None"
proof -
  let ?s = "issued lapsing None None"
  let ?a = "\<lparr>ac_client_id = Some ''client-1'', ac_redirect_uri = Some ''https://app/cb'',
            ac_scope = ''mcp:tools'', code_challenge = None, code_challenge_method = None,
            ac_created_at = 0, ac_expires_at = 600000000\<rparr>"
  have h1: "authorization_codes ?s ''code-1'' = Some ?a"
    by (simp add: ex_defs create_unfold)
  have h2: "ac_expires_at ?a < shd (clock ?s)"
    by (simp add: ex_defs create_unfold)
  show ?thesis
    using h1
      expired_code_is_evicted [OF h1 _ _ h2, of "Some ''client-1''" "Some ''https://app/cb''"
        None "Some ''client-1''" "Some ''https://app/cb''" None]
    by simp
qed

subsection \<open>C6: client or redirect URI mismatch\<close>

text \<open>
  Claim C6. When the client id or the redirect URI supplied is not the one stored with
  the code, \<^verbatim>\<open>exchange_code_for_tokens\<close> returns \<^verbatim>\<open>None\<close> and changes nothing,
  whatever the expiry and the verifier. The comparison is equality of strings.
\<close>

theorem mismatch_is_rejected:
  assumes "authorization_codes s code = Some a"
    and "ac_client_id a \<noteq> client_id \<or> ac_redirect_uri a \<noteq> redirect_uri"
  shows "exchange_code_for_tokens code client_id redirect_uri code_verifier s = (Inr None, s)"
  using assms by (auto simp: exchange_unfold)

text \<open>
  A trailing slash on the redirect URI, or a capital letter in the client id, with the
  right verifier and an unexpired code; the bound values are accepted.
\<close>

theorem mismatch_is_rejected_witness:
  "exchange_code_for_tokens ''code-1'' (Some ''client-1'') (Some ''https://app/cb/'')
     (Some ''secret'') (issued ticking (Some ''secret'') (Some ''plain''))
   = (Inr None, issued ticking (Some ''secret'') (Some ''plain'')) \<and>
   exchange_code_for_tokens ''code-1'' (Some ''Client-1'') (Some ''https://app/cb'')
     (Some ''secret'') (issued ticking (Some ''secret'') (Some ''plain''))
   = (Inr None, issued ticking (Some ''secret'') (Some ''plain'')) \<and>
   (\<exists>tokens.
      fst (exchange_code_for_tokens ''code-1'' (Some ''client-1'') (Some ''https://app/cb'')
             (Some ''secret'') (issued ticking (Some ''secret'') (Some ''plain'')))
      = Inr (Some tokens))"
proof -
  let ?s = "issued ticking (Some ''secret'') (Some ''plain'')"
  let ?a = "\<lparr>ac_client_id = Some ''client-1'', ac_redirect_uri = Some ''https://app/cb'',
            ac_scope = ''mcp:tools'', code_challenge = Some ''secret'',
            code_challenge_method = Some ''plain'',
            ac_created_at = 1700000000000000, ac_expires_at = 1700000601000000\<rparr>"
  have h1: "authorization_codes ?s ''code-1'' = Some ?a"
    by (simp add: ex_defs create_unfold)
  have h2: "\<exists>tokens.
      fst (exchange_code_for_tokens ''code-1'' (Some ''client-1'') (Some ''https://app/cb'')
             (Some ''secret'') ?s) = Inr (Some tokens)"
    by (simp add: ex_defs create_unfold exchange_unfold)
  show ?thesis
    using h2
      mismatch_is_rejected [OF h1, of "Some ''client-1''" "Some ''https://app/cb/''" "Some ''secret''"]
      mismatch_is_rejected [OF h1, of "Some ''Client-1''" "Some ''https://app/cb''" "Some ''secret''"]
    by simp
qed

subsection \<open>C7: validating an access token\<close>

text \<open>
  Claim C7. \<^verbatim>\<open>validate_access_token\<close> returns \<^verbatim>\<open>None\<close> for a token that is not in
  the access-token store. For a stored token that expires strictly before the current
  time it removes the entry and returns \<^verbatim>\<open>None\<close>, the next call returns \<^verbatim>\<open>None\<close>,
  and so does every call after any further sequence of calls, as long as the random
  source does not return the same token again. For a stored token that has not expired it
  returns the stored record and leaves the four stores as they were.
\<close>

theorem validate_access_token_cases:
  "(access_tokens s token = None \<longrightarrow> validate_access_token token s = (None, s)) \<and>
   (\<forall>d. access_tokens s token = Some d \<and> at_expires_at d < shd (clock s) \<longrightarrow>
      fst (validate_access_token token s) = None \<and>
      access_tokens (snd (validate_access_token token s)) = (access_tokens s)(token := None) \<and>
      fst (validate_access_token token (snd (validate_access_token token s))) = None \<and>
      (token \<notin> sset (rng s) \<longrightarrow>
         (\<forall>later. fst (validate_access_token token
                        (run_calls later (snd (validate_access_token token s)))) = None))) \<and>
   (\<forall>d. access_tokens s token = Some d \<and> \<not> at_expires_at d < shd (clock s) \<longrightarrow>
      fst (validate_access_token token s) = Some d \<and>
      registered_clients (snd (validate_access_token token s)) = registered_clients s \<and>
      authorization_codes (snd (validate_access_token token s)) = authorization_codes s \<and>
      access_tokens (snd (validate_access_token token s)) = access_tokens s \<and>
      refresh_tokens (snd (validate_access_token token s)) = refresh_tokens s)"
proof (intro conjI allI impI)
  fix d
  assume a: "access_tokens s token = Some d \<and> at_expires_at d < shd (clock s)"
  let ?s' = "snd (validate_access_token token s)"
  show "fst (validate_access_token token s) = None"
    using a by (simp add: validate_unfold)
  show gone: "access_tokens ?s' = (access_tokens s)(token := None)"
    using a by (simp add: validate_unfold)
  then show "fst (validate_access_token token ?s') = None"
    by (simp add: validate_unfold)
  assume "token \<notin> sset (rng s)"
  then have "token \<notin> sset (rng ?s')"
    using a by (simp add: validate_unfold)
  then have "access_tokens (run_calls later ?s') token = None" for later
    using gone by (intro access_run_calls) simp_all
  then show "fst (validate_access_token token (run_calls later ?s')) = None" for later
    by (simp add: validate_unfold)
qed (simp_all add: validate_unfold)

text \<open>
  On the concrete run: an unknown token; \<open>access-1\<close> at once, at the microsecond of its
  expiry and one microsecond later; and again after eviction and a refresh.
\<close>

theorem validate_access_token_cases_witness:
  "validate_access_token ''stale'' redeemed = (None, redeemed) \<and>
   access_tokens redeemed ''access-1'' \<noteq> None \<and>
   fst (validate_access_token ''access-1'' redeemed) = access_tokens redeemed ''access-1'' \<and>
   fst (validate_access_token ''access-1'' (redeemed\<lparr>clock := sconst 1700003604000000\<rparr>))
     = access_tokens redeemed ''access-1'' \<and>
   fst (validate_access_token ''access-1'' (redeemed\<lparr>clock := sconst 1700003604000001\<rparr>)) = None \<and>
   fst (validate_access_token ''access-1''
          (run_calls [Refresh_access_token ''refresh-1'' (Some ''client-1'')]
             (snd (validate_access_token ''access-1''
                     (redeemed\<lparr>clock := sconst 1700003604000001\<rparr>))))) = None"
proof -
  let ?d = "\<lparr>at_client_id = Some ''client-1'', at_scope = ''mcp:tools'',
            at_created_at = 1700000003000000, at_expires_at = 1700003604000000\<rparr>"
  let ?last = "redeemed\<lparr>clock := sconst 1700003604000000\<rparr>"
  let ?late = "redeemed\<lparr>clock := sconst 1700003604000001\<rparr>"
  have h0: "access_tokens redeemed ''stale'' = None"
    by (simp add: ex_defs create_unfold exchange_unfold)
  have h1: "access_tokens redeemed ''access-1'' = Some ?d"
    by (simp add: ex_defs create_unfold exchange_unfold)
  have h2: "\<not> at_expires_at ?d < shd (clock redeemed)"
    by (simp add: ex_defs create_unfold exchange_unfold)
  have h3: "''access-1'' \<notin> sset (rng redeemed)"
    by (simp add: ex_defs create_unfold exchange_unfold)
  have h4: "access_tokens ?late ''access-1'' = Some ?d \<and> at_expires_at ?d < shd (clock ?late)"
    using h1 by simp
  have h5: "''access-1'' \<notin> sset (rng ?late)"
    using h3 by simp
  have c1: "validate_access_token ''stale'' redeemed = (None, redeemed)"
    using h0 validate_access_token_cases [of redeemed "''stale''"] by simp
  have c2: "fst (validate_access_token ''access-1'' redeemed) = Some ?d"
    using h1 h2 validate_access_token_cases [of redeemed "''access-1''"] by simp
  have c3: "fst (validate_access_token ''access-1'' ?last) = Some ?d"
    using h1 validate_access_token_cases [of ?last "''access-1''"] by simp
  have c4: "fst (validate_access_token ''access-1'' ?late) = None"
    using h4 validate_access_token_cases [of ?late "''access-1''"] by blast
  have c5: "fst (validate_access_token ''access-1''
          (run_calls [Refresh_access_token ''refresh-1'' (Some ''client-1'')]
             (snd (validate_access_token ''access-1'' ?late)))) = None"
    using h4 h5 validate_access_token_cases [of ?late "''access-1''"] by blast
  show ?thesis
    using h1 c1 c2 c3 c4 c5 by simp
qed

subsection \<open>C8: refreshing an access token\<close>




subsection \<open>C9: empty challenge, empty verifier\<close>

text \<open>
  Claim C9. With the empty string (or \<^verbatim>\<open>None\<close>) stored as the challenge, client and
  redirect URI matching and the code unexpired, \<^verbatim>\<open>exchange_code_for_tokens\<close> returns
  tokens for every verifier and for none: the PKCE block is skipped, whatever the stored
  method. With a non-empty challenge stored, the empty verifier gets \<^verbatim>\<open>None\<close>,
  whatever the method and whatever the challenge.
\<close>

theorem empty_challenge_and_empty_verifier:
  assumes "authorization_codes s code = Some a"
  shows "(\<not> truthy (code_challenge a) \<and> ac_client_id a = client_id \<and>
          ac_redirect_uri a = redirect_uri \<and> \<not> ac_expires_at a < shd (clock s) \<longrightarrow>
            (\<exists>tokens. fst (exchange_code_for_tokens code client_id redirect_uri code_verifier s)
                       = Inr (Some tokens))) \<and>
         (truthy (code_challenge a) \<longrightarrow>
            fst (exchange_code_for_tokens code client_id redirect_uri (Some []) s) = Inr None)"
  using assms by (auto simp: exchange_unfold pkce_passes_def)

text \<open>
  The empty challenge under S256: without a verifier, with the empty one, with
  \<open>anything\<close> and with the lone surrogate U+D800, which is never encoded here. And the
  empty verifier against the challenge that is its own S256 digest.
\<close>

theorem empty_challenge_and_empty_verifier_witness:
  "(\<exists>tokens.
      fst (exchange_code_for_tokens ''code-1'' (Some ''client-1'') (Some ''https://app/cb'') None
             (issued ticking (Some []) (Some ''S256''))) = Inr (Some tokens)) \<and>
   (\<exists>tokens.
      fst (exchange_code_for_tokens ''code-1'' (Some ''client-1'') (Some ''https://app/cb'')
             (Some []) (issued ticking (Some []) (Some ''S256''))) = Inr (Some tokens)) \<and>
   (\<exists>tokens.
      fst (exchange_code_for_tokens ''code-1'' (Some ''client-1'') (Some ''https://app/cb'')
             (Some ''anything'') (issued ticking (Some []) (Some ''S256''))) = Inr (Some tokens)) \<and>
   (\<exists>tokens.
      fst (exchange_code_for_tokens ''code-1'' (Some ''client-1'') (Some ''https://app/cb'')
             (Some [CHR 0xED, CHR 0xA0, CHR 0x80])
             (issued ticking (Some []) (Some ''S256''))) = Inr (Some tokens)) \<and>
   fst (exchange_code_for_tokens ''code-1'' (Some ''client-1'') (Some ''https://app/cb'') (Some [])
          (issued ticking (Some ''47DEQpj8HBSa-_TImW-5JCeuQeRkm5NMpJWZG3hSuFU'') (Some ''S256'')))
   = Inr None"
proof -
  let ?e = "issued ticking (Some []) (Some ''S256'')"
  let ?ch = "''47DEQpj8HBSa-_TImW-5JCeuQeRkm5NMpJWZG3hSuFU''"
  let ?s = "issued ticking (Some ?ch) (Some ''S256'')"
  let ?a = "\<lambda>ch. \<lparr>ac_client_id = Some ''client-1'', ac_redirect_uri = Some ''https://app/cb'',
            ac_scope = ''mcp:tools'', code_challenge = Some ch,
            code_challenge_method = Some ''S256'',
            ac_created_at = 1700000000000000, ac_expires_at = 1700000601000000\<rparr>"
  have h1: "authorization_codes ?e ''code-1'' = Some (?a [])"
    by (simp add: ex_defs create_unfold)
  have h2: "\<not> ac_expires_at (?a []) < shd (clock ?e)"
    by (simp add: ex_defs create_unfold)
  have h3: "authorization_codes ?s ''code-1'' = Some (?a ?ch)"
    by (simp add: ex_defs create_unfold)
  note t = empty_challenge_and_empty_verifier [OF h1, of "Some ''client-1''" "Some ''https://app/cb''"]
  show ?thesis
    using h2 t [of None] t [of "Some []"] t [of "Some ''anything''"]
      t [of "Some [CHR 0xED, CHR 0xA0, CHR 0x80]"]
      empty_challenge_and_empty_verifier [OF h3, of "Some ''client-1''" "Some ''https://app/cb''"]
    by simp
qed

subsection \<open>C10: the transport gate\<close>

text \<open>
  Claim C10. \<^verbatim>\<open>check_auth\<close> rejects a request whose \<open>Authorization\<close> header starts
  with \<open>Bearer \<close> and whose token is neither accepted by \<^verbatim>\<open>validate_access_token\<close> nor
  the static token, also when no static token is configured. When no static token is
  configured, it accepts a request whose header does not start with \<open>Bearer \<close>.
\<close>

theorem invalid_bearer_worse_than_none:
  "(take 7 auth_header = ''Bearer '' \<and>
    fst (validate_access_token (drop 7 auth_header) s) = None \<and>
    Some (drop 7 auth_header) \<noteq> auth_token \<longrightarrow>
      \<not> fst (check_auth auth_token auth_header s)) \<and>
   (\<not> truthy auth_token \<and> take 7 auth_header \<noteq> ''Bearer '' \<longrightarrow>
      check_auth auth_token auth_header s = (True, s))"
  by (simp add: check_auth_unfold)

text \<open>No static token: a stale bearer token, no header, and a valid bearer token.\<close>

theorem invalid_bearer_worse_than_none_witness:
  "\<not> fst (check_auth None ''Bearer stale'' redeemed) \<and> fst (check_auth None [] redeemed) \<and>
   fst (check_auth None ''Bearer access-1'' redeemed)"
proof -
  have h1: "fst (validate_access_token (drop 7 ''Bearer stale'') redeemed) = None"
    by (simp add: ex_defs create_unfold exchange_unfold validate_unfold)
  have h2: "fst (check_auth None ''Bearer access-1'' redeemed)"
    by (simp add: ex_defs create_unfold exchange_unfold validate_unfold check_auth_unfold)
  show ?thesis
    using h1 h2
      invalid_bearer_worse_than_none [of "''Bearer stale''" redeemed None]
      invalid_bearer_worse_than_none [of "[]" redeemed None]
    by simp
qed

end
